theory Spec2Isabelle
  imports Main "HOL-Library.Word"
begin

unbundle bit_operations_syntax

section \<open>Data model\<close>

text \<open>
  The firmware runs on an 8-bit AVR: \<open>uint8_t\<close> is an 8-bit word, \<open>uint16_t\<close> and
  \<open>size_t\<close> are 16-bit words. Word arithmetic wraps around, word comparison is unsigned.
\<close>

type_synonym u8 = "8 word"
type_synonym u16 = "16 word"

subsection \<open>Sine wave table\<close>

text \<open>\<open>const uint8_t SIN[]\<close>: 386 samples of one period, a constant of the program.\<close>

definition SIN :: "u8 list" where
  "SIN = [
   0x80, 0x82, 0x84, 0x86, 0x88, 0x8a, 0x8c, 0x8e, 0x90, 0x92, 0x94, 0x96, 0x98, 0x9a, 0x9c, 0x9e,
   0xa0, 0xa2, 0xa4, 0xa6, 0xa8, 0xaa, 0xac, 0xae, 0xb0, 0xb2, 0xb4, 0xb6, 0xb8, 0xb9, 0xbb, 0xbd,
   0xbf, 0xc1, 0xc3, 0xc4, 0xc6, 0xc8, 0xc9, 0xcb, 0xcd, 0xce, 0xd0, 0xd2, 0xd3, 0xd5, 0xd6, 0xd8,
   0xd9, 0xdb, 0xdc, 0xde, 0xdf, 0xe0, 0xe2, 0xe3, 0xe4, 0xe6, 0xe7, 0xe8, 0xe9, 0xea, 0xeb, 0xed,
   0xee, 0xef, 0xf0, 0xf1, 0xf2, 0xf2, 0xf3, 0xf4, 0xf5, 0xf6, 0xf7, 0xf7, 0xf8, 0xf9, 0xf9, 0xfa,
   0xfa, 0xfb, 0xfb, 0xfc, 0xfc, 0xfd, 0xfd, 0xfd, 0xfe, 0xfe, 0xfe, 0xfe, 0xff, 0xff, 0xff, 0xff,
   0xff, 0xff, 0xff, 0xff, 0xff, 0xff, 0xfe, 0xfe, 0xfe, 0xfe, 0xfd, 0xfd, 0xfd, 0xfc, 0xfc, 0xfb,
   0xfb, 0xfa, 0xfa, 0xf9, 0xf9, 0xf8, 0xf7, 0xf7, 0xf6, 0xf5, 0xf4, 0xf3, 0xf2, 0xf2, 0xf1, 0xf0,
   0xef, 0xee, 0xed, 0xeb, 0xea, 0xe9, 0xe8, 0xe7, 0xe6, 0xe4, 0xe3, 0xe2, 0xe0, 0xdf, 0xde, 0xdc,
   0xdb, 0xd9, 0xd8, 0xd6, 0xd5, 0xd3, 0xd2, 0xd0, 0xce, 0xcd, 0xcb, 0xc9, 0xc8, 0xc6, 0xc4, 0xc3,
   0xc1, 0xbf, 0xbd, 0xbb, 0xb9, 0xb8, 0xb6, 0xb4, 0xb2, 0xb0, 0xae, 0xac, 0xaa, 0xa8, 0xa6, 0xa4,
   0xa2, 0xa0, 0x9e, 0x9c, 0x9a, 0x98, 0x96, 0x94, 0x92, 0x90, 0x8e, 0x8c, 0x8a, 0x88, 0x86, 0x84,
   0x82, 0x80, 0x7d, 0x7b, 0x79, 0x77, 0x75, 0x73, 0x71, 0x6f, 0x6d, 0x6b, 0x69, 0x67, 0x65, 0x63,
   0x61, 0x5f, 0x5d, 0x5b, 0x59, 0x57, 0x55, 0x53, 0x51, 0x4f, 0x4d, 0x4b, 0x49, 0x47, 0x46, 0x44,
   0x42, 0x40, 0x3e, 0x3c, 0x3b, 0x39, 0x37, 0x36, 0x34, 0x32, 0x31, 0x2f, 0x2d, 0x2c, 0x2a, 0x29,
   0x27, 0x26, 0x24, 0x23, 0x21, 0x20, 0x1f, 0x1d, 0x1c, 0x1b, 0x19, 0x18, 0x17, 0x16, 0x15, 0x14,
   0x12, 0x11, 0x10, 0x0f, 0x0e, 0x0d, 0x0d, 0x0c, 0x0b, 0x0a, 0x09, 0x08, 0x08, 0x07, 0x06, 0x06,
   0x05, 0x05, 0x04, 0x04, 0x03, 0x03, 0x02, 0x02, 0x02, 0x01, 0x01, 0x01, 0x01, 0x00, 0x00, 0x00,
   0x00, 0x00, 0x00, 0x00, 0x00, 0x00, 0x00, 0x01, 0x01, 0x01, 0x01, 0x02, 0x02, 0x02, 0x03, 0x03,
   0x04, 0x04, 0x05, 0x05, 0x06, 0x06, 0x07, 0x08, 0x08, 0x09, 0x0a, 0x0b, 0x0c, 0x0d, 0x0d, 0x0e,
   0x0f, 0x10, 0x11, 0x12, 0x14, 0x15, 0x16, 0x17, 0x18, 0x19, 0x1b, 0x1c, 0x1d, 0x1f, 0x20, 0x21,
   0x23, 0x24, 0x26, 0x27, 0x29, 0x2a, 0x2c, 0x2d, 0x2f, 0x31, 0x32, 0x34, 0x36, 0x37, 0x39, 0x3b,
   0x3c, 0x3e, 0x40, 0x42, 0x44, 0x46, 0x47, 0x49, 0x4b, 0x4d, 0x4f, 0x51, 0x53, 0x55, 0x57, 0x59,
   0x5b, 0x5d, 0x5f, 0x61, 0x63, 0x65, 0x67, 0x69, 0x6b, 0x6d, 0x6f, 0x71, 0x73, 0x75, 0x77, 0x79,
   0x7b, 0x7d
  ]"

text \<open>\<open>sizeof(SIN)\<close>: the elements are single bytes, so this is the number of entries.\<close>

definition sizeof_SIN :: u16 where
  "sizeof_SIN = of_nat (length SIN)"

subsection \<open>Pins\<close>

text \<open>
  \<open>enum {PA0, PA1, PA2, PA3, PA4, PA5, PA6, PA7}\<close> numbers the pins from 0;
  the frequency selection switch is on \<open>PA3\<close>.
\<close>

definition PA3 :: nat where
  "PA3 = 3"

definition PIN_FRQ :: nat where
  "PIN_FRQ = PA3"

text \<open>
  \<open>#define pinRead(x) (VPORTA.IN & (1<<(x)))\<close>. The port input register is volatile
  hardware state, so the value read is an argument of the model.
\<close>

definition pinRead :: "nat \<Rightarrow> u8 \<Rightarrow> u8" where
  "pinRead x VPORTA_IN = VPORTA_IN AND push_bit x 1"

subsection \<open>Machine state\<close>

text \<open>
  The three globals of the generator and the registers of timer TCD0 that the source
  names. A register field holds the value last written to it. The 16-bit compare
  registers \<open>CMPACLR\<close> and \<open>CMPBCLR\<close> are kept as their low and high bytes, since the
  interrupt routine writes the low bytes \<open>CMPACLRL\<close> and \<open>CMPBCLRL\<close> alone.
\<close>

record mcu =
  SIN_ptr :: u16
  SIN_val :: u8
  cnt60 :: u8
  TCD0_CTRLA :: u8
  TCD0_CTRLB :: u8
  TCD0_CTRLE :: u8
  TCD0_INTCTRL :: u8
  TCD0_INTFLAGS :: u8
  TCD0_FAULTCTRL :: u8
  TCD0_CMPASET :: u16
  TCD0_CMPACLRL :: u8
  TCD0_CMPACLRH :: u8
  TCD0_CMPBSET :: u16
  TCD0_CMPBCLRL :: u8
  TCD0_CMPBCLRH :: u8

text \<open>
  The bit masks \<open>TCD_SYNCEOC_bm\<close> and \<open>TCD_OVF_bm\<close> come from the device header
  \<open>avr/io.h\<close>, which is not part of the repository: they are parameters of the model.
\<close>

record avr_io =
  TCD_SYNCEOC_bm :: u8
  TCD_OVF_bm :: u8

text \<open>
  The initialisers of the globals:
  \<open>uint16_t SIN_ptr = 0; uint8_t SIN_val = 0x80; uint8_t cnt60 = 5;\<close>
  The startup code loads them into whatever state the registers are in.
\<close>

definition startup :: "mcu \<Rightarrow> mcu" where
  "startup s = s\<lparr>SIN_ptr := 0, SIN_val := 0x80, cnt60 := 5\<rparr>"

section \<open>TCD interrupt service routine\<close>

text \<open>
  Reading the table outside its bounds is undefined in C; the model makes it a fault.
\<close>

datatype fault = IndexOutOfBounds

definition SIN_at :: "u16 \<Rightarrow> fault + u8" where
  "SIN_at p = (if unat p < length SIN then Inr (SIN ! unat p) else Inl IndexOutOfBounds)"

text \<open>
  \<open>if(++SIN_ptr >= sizeof(SIN)) SIN_ptr = 0;\<close> The increment is on a \<open>uint16_t\<close>
  and the comparison is between unsigned 16-bit values.
\<close>

definition inc_SIN_ptr :: "u16 \<Rightarrow> u16" where
  "inc_SIN_ptr p = (let p' = p + 1 in if sizeof_SIN \<le> p' then 0 else p')"

text \<open>
  \<open>ISR(TCD0_OVF_vect)\<close>, statement by statement. \<open>-SIN_val\<close> is stored into an 8-bit
  register, which keeps the low byte of the negated value: negation on \<open>u8\<close>.
  In \<open>!pinRead(PIN_FRQ) && !--cnt60\<close> the decrement happens only when the pin reads
  low, and its result is what is tested.
\<close>

definition ISR_TCD0_OVF :: "avr_io \<Rightarrow> u8 \<Rightarrow> mcu \<Rightarrow> fault + mcu" where
  "ISR_TCD0_OVF io VPORTA_IN s =
    (let s1 = s\<lparr>TCD0_CMPACLRL := SIN_val s\<rparr>;
         s2 = s1\<lparr>TCD0_CMPBCLRL := - SIN_val s1\<rparr>;
         s3 = s2\<lparr>TCD0_CTRLE := TCD_SYNCEOC_bm io\<rparr>;
         s4 = s3\<lparr>TCD0_INTFLAGS := TCD_OVF_bm io\<rparr>;
         s5 = s4\<lparr>SIN_ptr := inc_SIN_ptr (SIN_ptr s4)\<rparr>;
         s6 = (if pinRead PIN_FRQ VPORTA_IN = 0
               then (let s' = s5\<lparr>cnt60 := cnt60 s5 - 1\<rparr> in
                     if cnt60 s' = 0
                     then (let s'' = s'\<lparr>SIN_ptr := inc_SIN_ptr (SIN_ptr s')\<rparr>
                           in s''\<lparr>cnt60 := 5\<rparr>)
                     else s')
               else s5)
     in case SIN_at (SIN_ptr s6) of
          Inl e \<Rightarrow> Inl e
        | Inr v \<Rightarrow> Inr (s6\<lparr>SIN_val := v\<rparr>))"

text \<open>The routine invoked once per timer cycle, with the port value read in each cycle.\<close>

fun run :: "avr_io \<Rightarrow> u8 list \<Rightarrow> mcu \<Rightarrow> fault + mcu" where
  "run io [] s = Inr s"
| "run io (v # vs) s =
     (case ISR_TCD0_OVF io v s of Inl e \<Rightarrow> Inl e | Inr s' \<Rightarrow> run io vs s')"

text \<open>
  The compare registers as \<open>main\<close> sets them before it enables the timer:
  \<open>TCD0.CMPASET = 0x03; TCD0.CMPACLR = 0x80; TCD0.CMPBSET = 0x03; TCD0.CMPBCLR = 0x7f;\<close>
  A 16-bit write sets both bytes. The other statements of \<open>main\<close> write header constants
  to clock, port and timer control registers and touch none of the fields below.
\<close>

definition main_compare_setup :: "mcu \<Rightarrow> mcu" where
  "main_compare_setup s =
     s\<lparr>TCD0_CMPASET := 0x03,
       TCD0_CMPACLRL := 0x80, TCD0_CMPACLRH := 0x00,
       TCD0_CMPBSET := 0x03,
       TCD0_CMPBCLRL := 0x7f, TCD0_CMPBCLRH := 0x00\<rparr>"

text \<open>A concrete machine state with every field zero, for evaluating the model.\<close>

definition zero_mcu :: mcu where
  "zero_mcu = \<lparr>SIN_ptr = 0, SIN_val = 0, cnt60 = 0,
     TCD0_CTRLA = 0, TCD0_CTRLB = 0, TCD0_CTRLE = 0, TCD0_INTCTRL = 0,
     TCD0_INTFLAGS = 0, TCD0_FAULTCTRL = 0,
     TCD0_CMPASET = 0, TCD0_CMPACLRL = 0, TCD0_CMPACLRH = 0,
     TCD0_CMPBSET = 0, TCD0_CMPBCLRL = 0, TCD0_CMPBCLRH = 0\<rparr>"

section \<open>Basic facts\<close>

lemma length_SIN: "length SIN = 386"
  by (simp add: SIN_def)

lemma sizeof_SIN_eq: "sizeof_SIN = 386"
  by (simp add: sizeof_SIN_def length_SIN)

lemma SIN_0: "SIN ! 0 = 0x80"
  by (simp add: SIN_def)

lemma SIN_193: "SIN ! 193 = 0x80"
  by (simp add: SIN_def)

section \<open>The interrupt routine as a state update\<close>

text \<open>
  Whatever the index was, one pass through the wrapping increment leaves it below the
  table length; from an index inside the table it is the successor modulo 386.
\<close>

lemma unat_inc_SIN_ptr_less: "unat (inc_SIN_ptr p) < 386"
  by (simp add: inc_SIN_ptr_def Let_def sizeof_SIN_eq word_le_nat_alt not_le)

lemma unat_inc_SIN_ptr:
  assumes "unat p < 386"
  shows "unat (inc_SIN_ptr p) = (unat p + 1) mod 386"
proof -
  from assms have "unat (p + 1) = unat p + 1"
    by (simp add: unat_word_ariths)
  then show ?thesis using assms
    by (simp add: inc_SIN_ptr_def Let_def sizeof_SIN_eq word_le_nat_alt mod_if)
qed

lemma SIN_at_inc: "SIN_at (inc_SIN_ptr p) = Inr (SIN ! unat (inc_SIN_ptr p))"
  by (simp add: SIN_at_def length_SIN unat_inc_SIN_ptr_less)

text \<open>
  The routine returns for every state and every port value: its table read is always
  in range. The state it returns, field by field.
\<close>

lemma ISR_eq:
  "ISR_TCD0_OVF io v s = Inr (s\<lparr>
      TCD0_CMPACLRL := SIN_val s,
      TCD0_CMPBCLRL := - SIN_val s,
      TCD0_CTRLE := TCD_SYNCEOC_bm io,
      TCD0_INTFLAGS := TCD_OVF_bm io,
      SIN_ptr := (if pinRead PIN_FRQ v = 0 \<and> cnt60 s - 1 = 0
                  then inc_SIN_ptr (inc_SIN_ptr (SIN_ptr s)) else inc_SIN_ptr (SIN_ptr s)),
      cnt60 := (if pinRead PIN_FRQ v = 0 then (if cnt60 s - 1 = 0 then 5 else cnt60 s - 1) else cnt60 s),
      SIN_val := SIN ! unat (if pinRead PIN_FRQ v = 0 \<and> cnt60 s - 1 = 0
                  then inc_SIN_ptr (inc_SIN_ptr (SIN_ptr s)) else inc_SIN_ptr (SIN_ptr s))\<rparr>)"
  by (simp add: ISR_TCD0_OVF_def Let_def SIN_at_inc)

lemma run_append:
  "run io (vs @ ws) s = (case run io vs s of Inl e \<Rightarrow> Inl e | Inr s' \<Rightarrow> run io ws s')"
  by (induction vs arbitrary: s) (auto split: sum.splits)

lemma run_Inr: "\<exists>s'. run io vs s = Inr s'"
  by (induction vs arbitrary: s) (auto simp: ISR_eq)

text \<open>
  Runs in which the pin reads high in every cycle (50 Hz), and runs in which it reads
  low in every cycle (60 Hz) with the counter \<open>c\<close> between 1 and 5.
\<close>

lemma ISR_low:
  assumes "pinRead PIN_FRQ v \<noteq> 0"
  shows "\<exists>s'. ISR_TCD0_OVF io v s = Inr s' \<and> SIN_ptr s' = inc_SIN_ptr (SIN_ptr s) \<and> cnt60 s' = cnt60 s"
  using assms by (simp add: ISR_eq)

lemma run_low:
  assumes "\<forall>v\<in>set vs. pinRead PIN_FRQ v \<noteq> 0" "unat (SIN_ptr s) < 386"
  shows "\<exists>s'. run io vs s = Inr s' \<and> unat (SIN_ptr s') = (unat (SIN_ptr s) + length vs) mod 386
      \<and> cnt60 s' = cnt60 s"
  using assms
proof (induction vs arbitrary: s)
  case Nil
  then show ?case by simp
next
  case (Cons v vs)
  from Cons.prems have v: "pinRead PIN_FRQ v \<noteq> 0" by simp
  from ISR_low [OF v] obtain s1 where s1: "ISR_TCD0_OVF io v s = Inr s1"
    "SIN_ptr s1 = inc_SIN_ptr (SIN_ptr s)" "cnt60 s1 = cnt60 s" by blast
  have p1: "unat (SIN_ptr s1) = (unat (SIN_ptr s) + 1) mod 386"
    using s1(2) Cons.prems(2) by (simp add: unat_inc_SIN_ptr)
  then have "unat (SIN_ptr s1) < 386" by simp
  with Cons.IH [of s1] Cons.prems(1) obtain s' where s': "run io vs s1 = Inr s'"
    "unat (SIN_ptr s') = (unat (SIN_ptr s1) + length vs) mod 386" "cnt60 s' = cnt60 s1"
    by auto
  have "(unat (SIN_ptr s1) + length vs) mod 386 = (unat (SIN_ptr s) + length (v # vs)) mod 386"
    unfolding p1 by (simp add: mod_add_left_eq)
  with s1 s' show ?case by simp
qed

lemma ISR_skip:
  assumes "pinRead PIN_FRQ v = 0" "unat (SIN_ptr s) < 386" "unat (cnt60 s) = c" "1 \<le> c" "c \<le> 5"
  shows "\<exists>s'. ISR_TCD0_OVF io v s = Inr s' \<and>
     unat (SIN_ptr s') = (unat (SIN_ptr s) + (if c = 1 then 2 else 1)) mod 386 \<and>
     unat (cnt60 s') = (if c = 1 then 5 else c - 1)"
proof (cases "c = 1")
  case True
  with assms(3) have "cnt60 s = 1" by (simp add: word_unat_eq_iff)
  moreover have "unat (inc_SIN_ptr (inc_SIN_ptr (SIN_ptr s))) = (unat (SIN_ptr s) + 2) mod 386"
    using assms(2) by (simp add: unat_inc_SIN_ptr unat_inc_SIN_ptr_less mod_simps)
  ultimately show ?thesis using assms(1) True by (simp add: ISR_eq)
next
  case False
  with assms have c: "2 \<le> c" by simp
  have u: "unat (cnt60 s - 1) = c - 1"
    using assms(3) c by (simp add: unat_sub word_le_nat_alt)
  with c have "cnt60 s - 1 \<noteq> 0" by (auto simp: word_unat_eq_iff)
  with assms(1,2) u False show ?thesis
    by (simp add: ISR_eq unat_inc_SIN_ptr)
qed

lemma run_skip:
  assumes "\<forall>v\<in>set vs. pinRead PIN_FRQ v = 0" "unat (SIN_ptr s) < 386"
    "unat (cnt60 s) = c" "1 \<le> c" "c \<le> 5"
  shows "\<exists>s'. run io vs s = Inr s' \<and>
     unat (SIN_ptr s') = (unat (SIN_ptr s) + length vs + (length vs + 5 - c) div 5) mod 386 \<and>
     unat (cnt60 s') = 5 - (length vs + 5 - c) mod 5"
  using assms
proof (induction vs arbitrary: s c)
  case Nil
  then show ?case by simp
next
  case (Cons v vs)
  from Cons.prems have v: "pinRead PIN_FRQ v = 0" by simp
  from ISR_skip [OF v Cons.prems(2-5)] obtain s1 where s1: "ISR_TCD0_OVF io v s = Inr s1"
    "unat (SIN_ptr s1) = (unat (SIN_ptr s) + (if c = 1 then 2 else 1)) mod 386"
    "unat (cnt60 s1) = (if c = 1 then 5 else c - 1)" by blast
  define c1 where "c1 = (if c = 1 then 5 else c - 1)"
  have c1: "1 \<le> c1" "c1 \<le> 5" using Cons.prems(4,5) by (auto simp: c1_def)
  have "unat (SIN_ptr s1) < 386" using s1(2) by simp
  with Cons.IH [of s1 c1] Cons.prems(1) s1(3) c1 obtain s' where s': "run io vs s1 = Inr s'"
    "unat (SIN_ptr s') = (unat (SIN_ptr s1) + length vs + (length vs + 5 - c1) div 5) mod 386"
    "unat (cnt60 s') = 5 - (length vs + 5 - c1) mod 5"
    by (auto simp: c1_def)
  define A :: nat where "A = (if c = 1 then 2 else 1)"
  define B where "B = length vs + (length vs + 5 - c1) div 5"
  define T where "T = length (v # vs) + (length (v # vs) + 5 - c) div 5"
  have a: "A + B = T"
    using Cons.prems(4,5) by (auto simp: c1_def A_def B_def T_def)
  have b: "(length vs + 5 - c1) mod 5 = (length (v # vs) + 5 - c) mod 5"
    using Cons.prems(4,5) by (auto simp: c1_def)
  have "unat (SIN_ptr s') = ((unat (SIN_ptr s) + A) mod 386 + B) mod 386"
    using s'(2) s1(2) by (simp add: A_def B_def add.assoc)
  also have "\<dots> = (unat (SIN_ptr s) + (A + B)) mod 386"
    by (simp add: mod_add_left_eq add.assoc)
  finally have "unat (SIN_ptr s') = (unat (SIN_ptr s) + length (v # vs) + (length (v # vs) + 5 - c) div 5) mod 386"
    unfolding a T_def by (simp only: add.assoc)
  with s1(1) s'(1,3) b show ?case by simp
qed

section \<open>The table\<close>

text \<open>
  Entry \<open>j\<close> of the first half against entry \<open>j\<close> of the second half, both halves
  without their first entry: one linear pass over the table.
\<close>

lemma SIN_pairs:
  "list_all2 (\<lambda>a b. unat a + unat b = 255) (tl (take 193 SIN)) (tl (drop 193 SIN))"
  by (simp add: SIN_def)

lemma SIN_pair_nth:
  assumes "0 < j" "j < 193"
  shows "unat (SIN ! j) + unat (SIN ! (j + 193)) = 255"
proof -
  from assms obtain k where k: "j = Suc k" "k < 192"
    by (cases j) auto
  have len: "length (tl (take 193 SIN)) = 192"
    by (simp add: length_SIN)
  from list_all2_nthD [OF SIN_pairs, of k] k len
  have "unat (tl (take 193 SIN) ! k) + unat (tl (drop 193 SIN) ! k) = 255"
    by simp
  moreover have "tl (take 193 SIN) ! k = SIN ! j"
    using k by (simp add: nth_tl length_SIN)
  moreover have "tl (drop 193 SIN) ! k = SIN ! (j + 193)"
    using k by (simp add: nth_tl length_SIN add.commute)
  ultimately show ?thesis by simp
qed

text \<open>
  C1, as stated: for every index \<open>i\<close> below 386 the sample at \<open>i\<close> and the sample half
  a period later add up to 255. This fails at index 0: \<open>SIN[0]\<close> and \<open>SIN[193]\<close> are
  both \<open>0x80\<close>, the two zero crossings of the sine, and add up to 256.
\<close>

theorem C1_zero_crossing_counterexample:
  "\<not> (unat (SIN ! 0) + unat (SIN ! ((0 + 193) mod 386)) = 255)"
  by (simp add: SIN_0 SIN_193)

text \<open>
  C1, amended: for every index \<open>i\<close> below 386 other than the two zero crossings 0 and
  193, the sample at \<open>i\<close> and the sample at \<open>(i + 193) mod 386\<close> add up to 255; the
  samples at 0 and 193 are both \<open>0x80\<close> and add up to 256. The sum is that of the
  promoted C integers, so it cannot wrap.
\<close>

theorem C1_phase_complement:
  assumes "i < 386" "i \<noteq> 0" "i \<noteq> 193"
  shows "unat (SIN ! i) + unat (SIN ! ((i + 193) mod 386)) = 255 \<and>
         unat (SIN ! 0) + unat (SIN ! 193) = 256"
proof (cases "i < 193")
  case True
  with assms have "(i + 193) mod 386 = i + 193" by simp
  with SIN_pair_nth [of i] True assms show ?thesis by (simp add: SIN_0 SIN_193)
next
  case False
  define j where "j = i - 193"
  with False assms have j: "0 < j" "j < 193" "i = j + 193" by auto
  then have "(i + 193) mod 386 = j"
    by (simp add: mod_if)
  with SIN_pair_nth [OF j(1,2)] j(3) show ?thesis by (simp add: SIN_0 SIN_193)
qed

text \<open>The amended C1 at index 1: \<open>0x82 + 0x7d = 255\<close>.\<close>

theorem C1_phase_complement_witness:
  "(1::nat) < 386 \<and> (1::nat) \<noteq> 0 \<and> (1::nat) \<noteq> 193 \<and>
   unat (SIN ! 1) + unat (SIN ! ((1 + 193) mod 386)) = 255 \<and>
   SIN ! 1 = 0x82 \<and> SIN ! 194 = 0x7d"
proof -
  have h: "(1::nat) < 386" "(1::nat) \<noteq> 0" "(1::nat) \<noteq> 193" by simp_all
  have "SIN ! 1 = 0x82" "SIN ! 194 = 0x7d" by (simp_all add: SIN_def)
  with h C1_phase_complement [OF h] show ?thesis by simp
qed

section \<open>Runs from startup\<close>

lemma pinRead_FRQ_low: "pinRead PIN_FRQ 0 = 0"
  by (simp add: pinRead_def)

text \<open>
  Every run from the startup state returns, in a state whose index is inside the table
  and whose cached sample is the table entry at that index.
\<close>

lemma run_invariant:
  "\<exists>s'. run io vs (startup s0) = Inr s' \<and> unat (SIN_ptr s') < 386 \<and>
        SIN_val s' = SIN ! unat (SIN_ptr s')"
proof (induction vs rule: rev_induct)
  case Nil
  show ?case by (simp add: startup_def SIN_0)
next
  case (snoc v vs)
  then obtain s where "run io vs (startup s0) = Inr s" by blast
  then show ?case
    by (simp add: run_append ISR_eq unat_inc_SIN_ptr_less)
qed

text \<open>No run changes the two dead-time compare registers.\<close>

lemma run_frame:
  "\<exists>s'. run io vs s = Inr s' \<and> TCD0_CMPASET s' = TCD0_CMPASET s \<and>
        TCD0_CMPBSET s' = TCD0_CMPBSET s"
proof (induction vs arbitrary: s)
  case Nil
  show ?case by simp
next
  case (Cons v vs)
  define s1 where "s1 = (case ISR_TCD0_OVF io v s of Inr x \<Rightarrow> x)"
  have s1: "ISR_TCD0_OVF io v s = Inr s1" "TCD0_CMPASET s1 = TCD0_CMPASET s"
    "TCD0_CMPBSET s1 = TCD0_CMPBSET s"
    by (simp_all add: s1_def ISR_eq)
  with Cons [of s1] show ?case by auto
qed

section \<open>Startup\<close>

text \<open>
  C7: at startup the table index is 0, the cached sample is \<open>0x80\<close>, which is the table
  entry at index 0, and the frequency correction counter is 5. That is its reload value:
  an invocation that finds the pin low and the counter at 1 leaves the counter at the
  value it has at startup.
\<close>

theorem C7_initial_state:
  "SIN_ptr (startup s) = 0 \<and> SIN_val (startup s) = 0x80 \<and>
   SIN_val (startup s) = SIN ! 0 \<and> cnt60 (startup s) = 5 \<and>
   (\<exists>s'. ISR_TCD0_OVF io 0 (s\<lparr>cnt60 := 1\<rparr>) = Inr s' \<and> cnt60 s' = cnt60 (startup s))"
  by (simp add: startup_def SIN_0 ISR_eq pinRead_FRQ_low)

section \<open>One invocation of the interrupt routine\<close>

text \<open>
  C2 says that after every invocation \<open>CMPBCLRL\<close> holds 255 minus the value of
  \<open>CMPACLRL\<close>. The routine stores \<open>-SIN_val\<close>, the two's complement, which is 256 minus
  the value (and 0 for 0), so the two registers never differ by the one's complement:
  their sum is 256 for a nonzero sample and 0 for the sample 0. On the first invocation
  after startup both registers receive \<open>0x80\<close>, where 255 minus the primary value is
  \<open>0x7f\<close>; \<open>main\<close> itself sets the pair to \<open>0x80\<close> and \<open>0x7f\<close>, which do add up to 255.
\<close>

theorem C2_secondary_register:
  "(\<exists>s'. ISR_TCD0_OVF io v s = Inr s' \<and>
      TCD0_CMPACLRL s' = SIN_val s \<and>
      TCD0_CMPBCLRL s' = - TCD0_CMPACLRL s' \<and>
      TCD0_CMPBCLRL s' \<noteq> 255 - TCD0_CMPACLRL s' \<and>
      unat (TCD0_CMPACLRL s') + unat (TCD0_CMPBCLRL s') = (if SIN_val s = 0 then 0 else 256)) \<and>
   (\<exists>s'. ISR_TCD0_OVF io v (main_compare_setup (startup s0)) = Inr s' \<and>
      TCD0_CMPACLRL s' = 0x80 \<and> TCD0_CMPBCLRL s' = 0x80 \<and>
      255 - TCD0_CMPACLRL s' = 0x7f) \<and>
   TCD0_CMPBCLRL (main_compare_setup (startup s0)) =
     255 - TCD0_CMPACLRL (main_compare_setup (startup s0))"
proof -
  have "unat (- SIN_val s) = (if SIN_val s = 0 then 0 else 256 - unat (SIN_val s))"
    using unat_sub_if_size [of 0 "SIN_val s"] by (auto simp: word_size unat_eq_0)
  then have "unat (SIN_val s) + unat (- SIN_val s) = (if SIN_val s = 0 then 0 else 256)"
    using unsigned_less [of "SIN_val s", where 'a = nat] by simp
  then show ?thesis
    by (simp add: ISR_eq main_compare_setup_def startup_def)
qed

text \<open>
  C5: the cached sample is the table entry at the index, \<open>SIN_val = SIN[SIN_ptr]\<close> with
  the index inside the table, at startup and after every invocation of the routine,
  whatever the state before the invocation and whatever the pin reads.
\<close>

theorem C5_cached_sample:
  "SIN_at (SIN_ptr (startup s0)) = Inr (SIN_val (startup s0)) \<and>
   (\<exists>s'. ISR_TCD0_OVF io v s = Inr s' \<and> SIN_at (SIN_ptr s') = Inr (SIN_val s') \<and>
         SIN_val s' = SIN ! unat (SIN_ptr s'))"
  by (simp add: ISR_eq startup_def SIN_at_def length_SIN SIN_0 unat_inc_SIN_ptr_less)

text \<open>
  C6: the routine never fails. The wrapping increment always yields an index below the
  table length; every invocation, from any state and for any port value, returns with
  the index below the table length; and so does every run from startup, so the table
  read of each invocation is in range.
\<close>

theorem C6_never_fails:
  "unat (inc_SIN_ptr p) < length SIN \<and>
   (\<exists>s'. ISR_TCD0_OVF io v s = Inr s' \<and> unat (SIN_ptr s') < length SIN) \<and>
   (\<exists>s'. run io vs (startup s0) = Inr s' \<and> unat (SIN_ptr s') < length SIN)"
  using run_invariant [of io vs s0]
  by (auto simp add: ISR_eq length_SIN unat_inc_SIN_ptr_less)

text \<open>
  C8: the value an invocation writes to the primary duration register \<open>CMPACLRL\<close> is
  the sample cached before the invocation. In every state reached from startup that is
  the table entry at the index on entry, while the sample re-read at the advanced index
  goes to the cache for the next invocation. On the first invocation the register
  receives \<open>SIN[0] = 0x80\<close>, not the entry \<open>SIN[1] = 0x82\<close> at the advanced index.
\<close>

theorem C8_primary_register:
  "(\<exists>s'. ISR_TCD0_OVF io v s = Inr s' \<and> TCD0_CMPACLRL s' = SIN_val s) \<and>
   (\<exists>s s'. run io vs (startup s0) = Inr s \<and> ISR_TCD0_OVF io v s = Inr s' \<and>
       TCD0_CMPACLRL s' = SIN ! unat (SIN_ptr s) \<and> SIN_val s' = SIN ! unat (SIN_ptr s')) \<and>
   (\<exists>s'. ISR_TCD0_OVF io v (startup s0) = Inr s' \<and> TCD0_CMPACLRL s' = SIN ! 0 \<and>
       SIN_ptr s' = 1 \<and> SIN ! 1 = 0x82 \<and> TCD0_CMPACLRL s' \<noteq> SIN ! 1)"
proof -
  have a: "\<exists>s'. ISR_TCD0_OVF io v s = Inr s' \<and> TCD0_CMPACLRL s' = SIN_val s"
    by (simp add: ISR_eq)
  from run_invariant [of io vs s0] obtain s where s: "run io vs (startup s0) = Inr s"
    "SIN_val s = SIN ! unat (SIN_ptr s)" by blast
  then have b: "\<exists>s s'. run io vs (startup s0) = Inr s \<and> ISR_TCD0_OVF io v s = Inr s' \<and>
       TCD0_CMPACLRL s' = SIN ! unat (SIN_ptr s) \<and> SIN_val s' = SIN ! unat (SIN_ptr s')"
    by (simp add: ISR_eq)
  have "inc_SIN_ptr 0 = 1" by (simp add: inc_SIN_ptr_def sizeof_SIN_eq word_le_nat_alt)
  moreover have "SIN ! 1 = 0x82" by (simp add: SIN_def)
  ultimately have c: "\<exists>s'. ISR_TCD0_OVF io v (startup s0) = Inr s' \<and> TCD0_CMPACLRL s' = SIN ! 0 \<and>
       SIN_ptr s' = 1 \<and> SIN ! 1 = 0x82 \<and> TCD0_CMPACLRL s' \<noteq> SIN ! 1"
    by (simp add: ISR_eq startup_def SIN_0)
  from a b c show ?thesis by blast
qed

text \<open>
  C9: an invocation changes only the three generator globals, the duration registers
  \<open>CMPACLRL\<close> and \<open>CMPBCLRL\<close>, the sync request \<open>CTRLE\<close> and the interrupt flags: the
  state after it is the state before it with these seven fields overwritten. The
  dead-time compare registers \<open>CMPASET\<close> and \<open>CMPBSET\<close>, like every other register,
  keep their values, over one invocation and over any run. The table \<open>SIN\<close> is a
  constant of the program (\<open>const\<close>), not part of the state the routine updates.
\<close>

theorem C9_frame:
  "(\<exists>s'. ISR_TCD0_OVF io v s = Inr s' \<and>
      s' = s\<lparr>SIN_ptr := SIN_ptr s', SIN_val := SIN_val s', cnt60 := cnt60 s',
              TCD0_CMPACLRL := TCD0_CMPACLRL s', TCD0_CMPBCLRL := TCD0_CMPBCLRL s',
              TCD0_CTRLE := TCD0_CTRLE s', TCD0_INTFLAGS := TCD0_INTFLAGS s'\<rparr> \<and>
      TCD0_CMPASET s' = TCD0_CMPASET s \<and> TCD0_CMPBSET s' = TCD0_CMPBSET s \<and>
      TCD0_CMPACLRH s' = TCD0_CMPACLRH s \<and> TCD0_CMPBCLRH s' = TCD0_CMPBCLRH s \<and>
      TCD0_CTRLA s' = TCD0_CTRLA s \<and> TCD0_CTRLB s' = TCD0_CTRLB s \<and>
      TCD0_INTCTRL s' = TCD0_INTCTRL s \<and> TCD0_FAULTCTRL s' = TCD0_FAULTCTRL s) \<and>
   (\<exists>s'. run io vs s = Inr s' \<and>
      TCD0_CMPASET s' = TCD0_CMPASET s \<and> TCD0_CMPBSET s' = TCD0_CMPBSET s)"
  using run_frame [of io vs s] by (simp add: ISR_eq)

section \<open>Index advance over many cycles\<close>

text \<open>
  C3: let the pin read low (60 Hz) in every cycle, the counter start at 5 and the index
  start inside the table. After \<open>n\<close> invocations the index has advanced by
  \<open>n + n div 5\<close> positions modulo 386, one extra position for every fifth invocation,
  and the counter is \<open>5 - n mod 5\<close>. After 386 invocations the advance is
  \<open>386 + 77 = 463\<close> positions modulo 386.
\<close>

theorem C3_skip_mode_advance:
  assumes "\<forall>v\<in>set vs. pinRead PIN_FRQ v = 0" and "cnt60 s = 5" and "unat (SIN_ptr s) < 386"
  shows "\<exists>s'. run io vs s = Inr s' \<and>
     unat (SIN_ptr s') = (unat (SIN_ptr s) + length vs + length vs div 5) mod 386 \<and>
     unat (cnt60 s') = 5 - length vs mod 5 \<and>
     (length vs = 386 \<longrightarrow> unat (SIN_ptr s') = (unat (SIN_ptr s) + 463) mod 386)"
proof -
  from assms(2) have c: "unat (cnt60 s) = 5" by simp
  from run_skip [OF assms(1) assms(3) c, of io]
  obtain s' where s': "run io vs s = Inr s'"
    "unat (SIN_ptr s') = (unat (SIN_ptr s) + length vs + length vs div 5) mod 386"
    "unat (cnt60 s') = 5 - length vs mod 5"
    by auto
  have "length vs = 386 \<longrightarrow> unat (SIN_ptr s') = (unat (SIN_ptr s) + 463) mod 386"
    using s'(2) by (simp add: add.commute)
  with s' show ?thesis by blast
qed

text \<open>C3 from startup, the port reading 0 in 386 cycles: the index ends at 77.\<close>

theorem C3_skip_mode_advance_witness:
  "set (replicate 386 (0::u8)) = {0} \<and> pinRead PIN_FRQ 0 = 0 \<and>
   cnt60 (startup zero_mcu) = 5 \<and> unat (SIN_ptr (startup zero_mcu)) < 386 \<and>
   length (replicate 386 (0::u8)) = 386 \<and>
   (\<exists>s'. run \<lparr>TCD_SYNCEOC_bm = 1, TCD_OVF_bm = 1\<rparr> (replicate 386 0) (startup zero_mcu) = Inr s' \<and>
      unat (SIN_ptr s') = 77 \<and> unat (cnt60 s') = 4)"
proof -
  have h1: "\<forall>v\<in>set (replicate 386 (0::u8)). pinRead PIN_FRQ v = 0"
    by (simp add: pinRead_def)
  have h2: "cnt60 (startup zero_mcu) = 5"
    by (simp add: startup_def)
  have h3: "unat (SIN_ptr (startup zero_mcu)) < 386"
    by (simp add: startup_def)
  have p: "SIN_ptr (startup zero_mcu) = 0"
    by (simp add: startup_def)
  from C3_skip_mode_advance [OF h1 h2 h3, of "\<lparr>TCD_SYNCEOC_bm = 1, TCD_OVF_bm = 1\<rparr>"]
  show ?thesis using h1 h2 h3 by (auto simp: p pinRead_FRQ_low)
qed

text \<open>
  C4: let the pin read high (50 Hz) in every cycle and the index start at 0. After \<open>n\<close>
  invocations the index is \<open>n mod 386\<close>: it runs through 1, 2, ..., 385 without a gap or
  a repetition, and the invocation that finds 385 sets it to 0, so after exactly 386
  invocations it is 0 again.
\<close>

theorem C4_base_advance_period:
  assumes "\<forall>v\<in>set vs. pinRead PIN_FRQ v \<noteq> 0" and "SIN_ptr s = 0"
  shows "\<exists>s'. run io vs s = Inr s' \<and> unat (SIN_ptr s') = length vs mod 386 \<and>
     (length vs = 386 \<longrightarrow> SIN_ptr s' = 0)"
proof -
  from assms(2) have "unat (SIN_ptr s) < 386" by simp
  from run_low [OF assms(1) this, of io] assms(2)
  obtain s' where s': "run io vs s = Inr s'" "unat (SIN_ptr s') = length vs mod 386"
    by auto
  have "length vs = 386 \<longrightarrow> SIN_ptr s' = 0"
    using s'(2) by (auto simp: unat_eq_0)
  with s' show ?thesis by blast
qed

text \<open>C4 from startup, bit 3 of the port set: index 0 after 386 cycles, 385 after 385.\<close>

theorem C4_base_advance_period_witness:
  "set (replicate 386 (8::u8)) = {8} \<and> pinRead PIN_FRQ 8 \<noteq> 0 \<and>
   SIN_ptr (startup zero_mcu) = 0 \<and> length (replicate 386 (8::u8)) = 386 \<and>
   (\<exists>s'. run \<lparr>TCD_SYNCEOC_bm = 1, TCD_OVF_bm = 1\<rparr> (replicate 386 8) (startup zero_mcu) = Inr s' \<and>
      SIN_ptr s' = 0) \<and>
   (\<exists>s'. run \<lparr>TCD_SYNCEOC_bm = 1, TCD_OVF_bm = 1\<rparr> (replicate 385 8) (startup zero_mcu) = Inr s' \<and>
      unat (SIN_ptr s') = 385)"
proof -
  have h1: "\<forall>v\<in>set (replicate 386 (8::u8)). pinRead PIN_FRQ v \<noteq> 0"
    by (simp add: pinRead_def PIN_FRQ_def PA3_def)
  have h1': "\<forall>v\<in>set (replicate 385 (8::u8)). pinRead PIN_FRQ v \<noteq> 0"
    by (simp add: pinRead_def PIN_FRQ_def PA3_def)
  have h2: "SIN_ptr (startup zero_mcu) = 0"
    by (simp add: startup_def)
  from C4_base_advance_period [OF h1 h2, of "\<lparr>TCD_SYNCEOC_bm = 1, TCD_OVF_bm = 1\<rparr>"]
    C4_base_advance_period [OF h1' h2, of "\<lparr>TCD_SYNCEOC_bm = 1, TCD_OVF_bm = 1\<rparr>"]
  show ?thesis using h1 h2 by auto
qed

text \<open>
  C10: an invocation in which the pin reads high (50 Hz) leaves \<open>cnt60\<close> as it was,
  neither decremented nor reloaded, and so does any run of such invocations. The next
  invocation in which the pin reads low decrements the retained value (and reloads 5
  only if that reaches 0): the countdown resumes where it stopped.
\<close>

theorem C10_counter_paused:
  assumes "pinRead PIN_FRQ v \<noteq> 0" and "\<forall>u\<in>set vs. pinRead PIN_FRQ u \<noteq> 0"
    and "pinRead PIN_FRQ w = 0"
  shows "(\<exists>s'. ISR_TCD0_OVF io v s = Inr s' \<and> cnt60 s' = cnt60 s) \<and>
     (\<exists>s' s''. run io vs s = Inr s' \<and> cnt60 s' = cnt60 s \<and>
        ISR_TCD0_OVF io w s' = Inr s'' \<and>
        cnt60 s'' = (if cnt60 s - 1 = 0 then 5 else cnt60 s - 1))"
proof -
  have one: "\<exists>s'. ISR_TCD0_OVF io v s = Inr s' \<and> cnt60 s' = cnt60 s"
    using ISR_low [OF assms(1), of io s] by blast
  have "\<exists>s'. run io vs s = Inr s' \<and> cnt60 s' = cnt60 s"
    using assms(2)
  proof (induction vs arbitrary: s)
    case Nil
    show ?case by simp
  next
    case (Cons u us)
    from Cons.prems have "pinRead PIN_FRQ u \<noteq> 0" by simp
    from ISR_low [OF this, of io s] obtain s1 where
      "ISR_TCD0_OVF io u s = Inr s1" "cnt60 s1 = cnt60 s" by blast
    with Cons.IH [of s1] Cons.prems show ?case by auto
  qed
  then obtain s' where s': "run io vs s = Inr s'" "cnt60 s' = cnt60 s" by blast
  with assms(3) have "\<exists>s' s''. run io vs s = Inr s' \<and> cnt60 s' = cnt60 s \<and>
        ISR_TCD0_OVF io w s' = Inr s'' \<and>
        cnt60 s'' = (if cnt60 s - 1 = 0 then 5 else cnt60 s - 1)"
    by (simp add: ISR_eq)
  with one show ?thesis by blast
qed

text \<open>
  C10 with the counter at 3: two cycles with bit 3 of the port set leave it at 3, and
  the next cycle with bit 3 clear takes it to 2.
\<close>

theorem C10_counter_paused_witness:
  "pinRead PIN_FRQ 8 \<noteq> 0 \<and> pinRead PIN_FRQ 0xFF \<noteq> 0 \<and>
   pinRead PIN_FRQ 0xF7 = 0 \<and>
   (\<exists>s'. ISR_TCD0_OVF \<lparr>TCD_SYNCEOC_bm = 1, TCD_OVF_bm = 1\<rparr> 8 (zero_mcu\<lparr>cnt60 := 3\<rparr>) = Inr s' \<and>
      cnt60 s' = 3) \<and>
   (\<exists>s' s''. run \<lparr>TCD_SYNCEOC_bm = 1, TCD_OVF_bm = 1\<rparr> [8, 0xFF] (zero_mcu\<lparr>cnt60 := 3\<rparr>) = Inr s' \<and>
      cnt60 s' = 3 \<and>
      ISR_TCD0_OVF \<lparr>TCD_SYNCEOC_bm = 1, TCD_OVF_bm = 1\<rparr> 0xF7 s' = Inr s'' \<and> cnt60 s'' = 2)"
proof -
  have h0: "pinRead PIN_FRQ 8 \<noteq> 0"
    by (simp add: pinRead_def PIN_FRQ_def PA3_def)
  have h1: "\<forall>u\<in>set [8, 0xFF :: u8]. pinRead PIN_FRQ u \<noteq> 0"
    by (simp add: pinRead_def PIN_FRQ_def PA3_def)
  have h2: "pinRead PIN_FRQ 0xF7 = 0"
    by (simp add: pinRead_def PIN_FRQ_def PA3_def)
  from C10_counter_paused [OF h0 h1 h2,
      of "\<lparr>TCD_SYNCEOC_bm = 1, TCD_OVF_bm = 1\<rparr>" "zero_mcu\<lparr>cnt60 := 3\<rparr>"]
  show ?thesis using h0 h1 h2 by auto
qed

end
